theory Spec2Isabelle
  imports Main "HOL-Library.Word"
begin

unbundle bit_operations_syntax

section \<open>ChildProcessBuilder: the data\<close>

text \<open>
  The development follows \<^verbatim>\<open>src/ChildProcessBuilder.cpp\<close>. The function
  \<^verbatim>\<open>ChildProcessBuilder::start(Error&)\<close> is a sequence of system calls, so the model
  of one execution is: the calls it makes, in order, with their arguments; the value left in
  the \<^verbatim>\<open>Error&\<close> argument; and the way the execution ends. What the operating system
  answers to each call is an input of the model.
\<close>

subsection \<open>C pointers to strings\<close>

text \<open>
  A \<^verbatim>\<open>char*\<close> is either null or points to a string. A slot of an array made by
  \<^verbatim>\<open>new char*[n]\<close> holds an indeterminate value until it is assigned.
\<close>

datatype char_ptr = Indeterminate | Nullptr | CStr string

subsection \<open>Collaborating classes\<close>

text \<open>
  \<^verbatim>\<open>CommandLine\<close>, \<^verbatim>\<open>Environment\<close>, \<^verbatim>\<open>Error\<close> and \<^verbatim>\<open>ChildProcess\<close> are declared in
  headers that are not among the sources. \<^verbatim>\<open>start\<close> only reads them through a few
  accessors, so an object is taken as the values those accessors return:
  \<^verbatim>\<open>getExecutable(Mode::raw)\<close>, \<^verbatim>\<open>getArguments(Mode::raw)\<close> and
  \<^verbatim>\<open>toString(Mode::quote_if_needed)\<close> for a command line,
  \<^verbatim>\<open>toEnvironmentArray()\<close> and \<^verbatim>\<open>toEnvironmentBlock()\<close> for an environment.
\<close>

record CommandLine =
  getExecutable_raw :: string
  getArguments_raw :: "string list"
  toString_quote_if_needed :: string

record Environment =
  toEnvironmentArray :: "char_ptr list"
  toEnvironmentBlock :: string

text \<open>
  An \<^verbatim>\<open>Error\<close> is "no error" (\<open>None\<close>) or a condition: a category and a code. The only
  condition \<^verbatim>\<open>start\<close> produces is \<^verbatim>\<open>ProcessErrorCategory::Value::generic\<close>; a caller
  may pass in an \<^verbatim>\<open>Error\<close> that already holds a condition of some other category.
\<close>

datatype ProcessErrorCategory_Value = generic

datatype ErrorCondition = ProcessError ProcessErrorCategory_Value | OtherError string int

type_synonym Error = "ErrorCondition option"

definition Fail :: "ProcessErrorCategory_Value \<Rightarrow> Error \<Rightarrow> Error" where
  \<comment> \<open>Modelled from the spec: \<^verbatim>\<open>Fail\<close> is declared in \<^verbatim>\<open>ProcessErrorCategory.hpp\<close>, which is
      not among the sources; the spec has it "populate a generic Error".\<close>
  "Fail v error = Some (ProcessError v)"

text \<open>
  A \<^verbatim>\<open>ChildProcess\<close> wraps one native process identifier: a \<^verbatim>\<open>pid_t\<close> on Linux, a
  \<^verbatim>\<open>HANDLE\<close> (read as an integer) on Windows.
\<close>

datatype ChildProcess = ChildProcess int

definition INVALID_HANDLE_VALUE :: int where
  "INVALID_HANDLE_VALUE = - 1"

subsection \<open>The builder\<close>

record ChildProcessBuilder =
  m_commandLine :: CommandLine
  m_environment :: "Environment option"
  m_current_working_directory :: "string option"
  m_standardOutputFilePath :: string

definition ChildProcessBuilder_1 :: "CommandLine \<Rightarrow> ChildProcessBuilder" where
  \<comment> \<open>\<^verbatim>\<open>ChildProcessBuilder(const CommandLine&)\<close>: the other members are default-constructed.\<close>
  "ChildProcessBuilder_1 commandLine =
     \<lparr>m_commandLine = commandLine, m_environment = None,
      m_current_working_directory = None, m_standardOutputFilePath = []\<rparr>"

definition ChildProcessBuilder_2 :: "CommandLine \<Rightarrow> Environment \<Rightarrow> ChildProcessBuilder" where
  \<comment> \<open>\<^verbatim>\<open>ChildProcessBuilder(const CommandLine&, const Environment&)\<close>\<close>
  "ChildProcessBuilder_2 commandLine environment =
     \<lparr>m_commandLine = commandLine, m_environment = Some environment,
      m_current_working_directory = None, m_standardOutputFilePath = []\<rparr>"

definition redirectStandardOutputToFile :: "string \<Rightarrow> ChildProcessBuilder \<Rightarrow> ChildProcessBuilder" where
  "redirectStandardOutputToFile path b = b\<lparr>m_standardOutputFilePath := path\<rparr>"

definition setCurrentWorkingDirectory :: "string \<Rightarrow> ChildProcessBuilder \<Rightarrow> ChildProcessBuilder" where
  "setCurrentWorkingDirectory path b = b\<lparr>m_current_working_directory := Some path\<rparr>"

section \<open>System calls\<close>

subsection \<open>Constants of the system headers\<close>

text \<open>The values are those of Linux (\<^verbatim>\<open>fcntl.h\<close>, \<^verbatim>\<open>unistd.h\<close>) and of the Windows SDK.\<close>

definition O_WRONLY :: "32 word" where "O_WRONLY = 1"
definition O_CREAT :: "32 word" where "O_CREAT = 64"
definition O_TRUNC :: "32 word" where "O_TRUNC = 512"
definition STDOUT_FILENO :: int where "STDOUT_FILENO = 1"

definition FILE_APPEND_DATA :: "32 word" where "FILE_APPEND_DATA = 4"
definition FILE_SHARE_READ :: "32 word" where "FILE_SHARE_READ = 1"
definition FILE_SHARE_WRITE :: "32 word" where "FILE_SHARE_WRITE = 2"
definition OPEN_ALWAYS :: "32 word" where "OPEN_ALWAYS = 4"
definition FILE_ATTRIBUTE_NORMAL :: "32 word" where "FILE_ATTRIBUTE_NORMAL = 128"
definition STARTF_USESTDHANDLES :: "32 word" where "STARTF_USESTDHANDLES = 256"

record STARTUPINFOA =
  dwFlags :: "32 word"
  hStdOutput :: int

record PROCESS_INFORMATION =
  hProcess :: int
  hThread :: int

subsection \<open>Calls\<close>

text \<open>
  One constructor for each call \<^verbatim>\<open>start\<close> makes, with the arguments that vary. Of
  \<^verbatim>\<open>CreateFileA\<close>: the path, the access, the share mode, \<^verbatim>\<open>bInheritHandle\<close> of the
  security attributes, the disposition, the attributes. Of \<^verbatim>\<open>CreateProcessA\<close>: the
  application name, the command line, \<^verbatim>\<open>bInheritHandles\<close>, the creation flags, the
  environment pointer and the directory pointer (\<open>None\<close> is \<^verbatim>\<open>NULL\<close>), the startup info.
\<close>

datatype os_call =
    Exists string
  | Fork
  | Open string "32 word" "32 word"
  | Dup2 int int
  | Realpath string
  | Chdir string
  | Execve char_ptr "char_ptr list" "char_ptr list"
  | Execv char_ptr "char_ptr list"
  | Free char_ptr
  | Exit int
  | CreateFileA string "32 word" "32 word" bool "32 word" "32 word"
  | CreateProcessA char_ptr string bool "32 word" "string option" "string option" STARTUPINFOA
  | CloseHandle int

subsection \<open>What the system answers\<close>

text \<open>
  \<^verbatim>\<open>start\<close> makes each call at most once, so the answers of one execution are one value
  for each call. \<^verbatim>\<open>fork\<close> returns in two processes; the model follows the process in
  which \<^verbatim>\<open>fork\<close> returns \<open>fork_ret\<close>. An \<^verbatim>\<open>exec\<close> call that succeeds does not return:
  \<open>exec_returns\<close> says whether it returns (then it has failed).
\<close>

record posix_os =
  exists_ret :: bool
  fork_ret :: int
  open_ret :: int
  dup2_ret :: int
  realpath_ret :: char_ptr
  chdir_ret :: int
  exec_returns :: bool

text \<open>
  \<^verbatim>\<open>CreateProcessA\<close> returns \<^verbatim>\<open>FALSE\<close> (\<open>None\<close>) or returns \<^verbatim>\<open>TRUE\<close> and fills in the
  process information.
\<close>

record windows_os =
  CreateFileA_ret :: int
  CreateProcessA_ret :: "PROCESS_INFORMATION option"

subsection \<open>The state of the process and the end of an execution\<close>

text \<open>
  Where the standard output of the process goes: where it went when \<^verbatim>\<open>start\<close> was
  called, or to a file this execution opened.
\<close>

datatype stream = Inherited | File string

text \<open>
  \<^verbatim>\<open>dup2(fd, STDOUT_FILENO)\<close> for the descriptor \<open>fd\<close> that \<^verbatim>\<open>open\<close> returned for
  \<open>path\<close>: with a valid descriptor and no error the standard output becomes the file;
  with \<open>fd = -1\<close> (the \<^verbatim>\<open>open\<close> failed) \<^verbatim>\<open>dup2\<close> fails and changes nothing.
\<close>

definition dup2_stdout :: "int \<Rightarrow> int \<Rightarrow> string \<Rightarrow> stream \<Rightarrow> stream" where
  "dup2_stdout fd ret path out = (if 0 \<le> fd \<and> ret \<noteq> - 1 then File path else out)"

text \<open>\<^verbatim>\<open>chdir\<close> returns 0 when it has changed the directory, and changes nothing otherwise.\<close>

definition chdir_cwd :: "int \<Rightarrow> string \<Rightarrow> string option \<Rightarrow> string option" where
  "chdir_cwd ret dir cwd = (if ret = 0 then Some dir else cwd)"

text \<open>
  An execution of \<^verbatim>\<open>start\<close> ends in one of three ways: it returns a handle to its
  caller; an \<^verbatim>\<open>exec\<close> call replaces the process image; or the process calls
  \<^verbatim>\<open>exit\<close>.
\<close>

datatype start_outcome = Returns ChildProcess | ImageReplaced | Exits int

text \<open>The status a parent reads from a terminated child is the low 8 bits of the argument of \<^verbatim>\<open>exit\<close>.\<close>

definition exit_status :: "int \<Rightarrow> int" where
  "exit_status n = n mod 256"

record run =
  calls :: "os_call list"
  error :: Error
  outcome :: start_outcome
  stdout :: stream
  cwd :: "string option"

section \<open>start on Linux\<close>

subsection \<open>The argument vector\<close>

text \<open>
  The range-for loop over \<^verbatim>\<open>arguments\<close>: each step stores a copy of the argument at
  index \<open>i\<close> and increments \<open>i\<close>.
\<close>

fun fill_argv :: "string list \<Rightarrow> char_ptr list \<Rightarrow> nat \<Rightarrow> char_ptr list \<times> nat" where
  "fill_argv [] argv i = (argv, i)"
| "fill_argv (argument # rest) argv i = fill_argv rest (argv[i := CStr argument]) (Suc i)"

definition build_argv :: "CommandLine \<Rightarrow> char_ptr list" where
  "build_argv commandLine =
     (let arguments = getArguments_raw commandLine;
          argv = replicate (length arguments + 2) Indeterminate;
          i = 0;
          argv = argv[i := CStr (getExecutable_raw commandLine)];
          i = Suc i;
          (argv, i) = fill_argv arguments argv i
      in argv[i := Nullptr])"

subsection \<open>The branch of the child\<close>

definition redirect_child :: "posix_os \<Rightarrow> ChildProcessBuilder \<Rightarrow> os_call list \<times> stream" where
  \<comment> \<open>lines 88 to 93; the mode \<^verbatim>\<open>0400\<close> is octal, 256\<close>
  "redirect_child os b =
     (let path = m_standardOutputFilePath b in
      if path \<noteq> [] then
        (let fd = open_ret os in
         ([Open path (O_WRONLY OR O_CREAT OR O_TRUNC) 256, Dup2 fd STDOUT_FILENO],
          dup2_stdout fd (dup2_ret os) path Inherited))
      else ([], Inherited))"

definition chdir_child :: "posix_os \<Rightarrow> ChildProcessBuilder \<Rightarrow> os_call list \<times> string option" where
  \<comment> \<open>lines 97 to 102; \<open>err\<close> is not read\<close>
  "chdir_child os b =
     (case m_current_working_directory b of
        None \<Rightarrow> ([], None)
      | Some dir \<Rightarrow> ([Chdir dir], chdir_cwd (chdir_ret os) dir None))"

definition exec_child :: "ChildProcessBuilder \<Rightarrow> char_ptr \<Rightarrow> char_ptr list \<Rightarrow> os_call" where
  \<comment> \<open>lines 104 to 113\<close>
  "exec_child b executable_path argv =
     (case m_environment b of
        Some environment \<Rightarrow> Execve executable_path argv (toEnvironmentArray environment)
      | None \<Rightarrow> Execv executable_path argv)"

definition child_branch :: "posix_os \<Rightarrow> ChildProcessBuilder \<Rightarrow> Error \<Rightarrow> os_call list \<Rightarrow> run" where
  "child_branch os b err before =
     (let argv = build_argv (m_commandLine b);
          (redirect_calls, out) = redirect_child os b;
          executable = getExecutable_raw (m_commandLine b);
          executable_path = realpath_ret os;
          (chdir_calls, dir) = chdir_child os b;
          upto_exec = before @ redirect_calls @ [Realpath executable] @ chdir_calls
                      @ [exec_child b executable_path argv]
      in if exec_returns os then
           \<lparr>calls = upto_exec @ [Free executable_path, Exit (- 1)], error = err,
            outcome = Exits (- 1), stdout = out, cwd = dir\<rparr>
         else
           \<lparr>calls = upto_exec, error = err, outcome = ImageReplaced, stdout = out, cwd = dir\<rparr>)"

subsection \<open>start\<close>

definition start_posix :: "posix_os \<Rightarrow> ChildProcessBuilder \<Rightarrow> Error \<Rightarrow> run" where
  "start_posix os b err =
     (let executable = getExecutable_raw (m_commandLine b) in
      if \<not> exists_ret os then
        \<lparr>calls = [Exists executable], error = Fail generic err,
         outcome = Returns (ChildProcess (- 1)), stdout = Inherited, cwd = None\<rparr>
      else
        (let child = fork_ret os in
         if child = - 1 then
           \<lparr>calls = [Exists executable, Fork], error = Fail generic err,
            outcome = Returns (ChildProcess child), stdout = Inherited, cwd = None\<rparr>
         else if child > 0 then
           \<lparr>calls = [Exists executable, Fork], error = err,
            outcome = Returns (ChildProcess child), stdout = Inherited, cwd = None\<rparr>
         else child_branch os b err [Exists executable, Fork]))"

section \<open>start on Windows\<close>

definition createInheritableFile :: "string \<Rightarrow> os_call" where
  \<comment> \<open>the call the helper makes; it returns what the call returns\<close>
  "createInheritableFile path =
     CreateFileA path FILE_APPEND_DATA (FILE_SHARE_WRITE OR FILE_SHARE_READ) True
       OPEN_ALWAYS FILE_ATTRIBUTE_NORMAL"

definition redirect_windows ::
  "windows_os \<Rightarrow> ChildProcessBuilder \<Rightarrow> os_call list \<times> bool \<times> STARTUPINFOA \<times> int option" where
  \<comment> \<open>lines 120 to 132: the calls, \<open>inheritHandles\<close>, \<open>startupInfo\<close> (zeroed first) and
      \<open>outputFile\<close> (\<open>None\<close>: never assigned)\<close>
  "redirect_windows w b =
     (let startupInfo = \<lparr>dwFlags = 0, hStdOutput = 0\<rparr>;
          path = m_standardOutputFilePath b in
      if path \<noteq> [] then
        (let outputFile = CreateFileA_ret w in
         ([createInheritableFile path], True,
          startupInfo\<lparr>dwFlags := dwFlags startupInfo OR STARTF_USESTDHANDLES,
                      hStdOutput := outputFile\<rparr>,
          Some outputFile))
      else ([], False, startupInfo, None))"

definition environment_windows :: "ChildProcessBuilder \<Rightarrow> string option" where
  \<comment> \<open>lines 134 to 140: the pointer \<open>environment\<close>\<close>
  "environment_windows b =
     (case m_environment b of
        Some environment \<Rightarrow> Some (toEnvironmentBlock environment)
      | None \<Rightarrow> None)"

definition start_windows :: "windows_os \<Rightarrow> ChildProcessBuilder \<Rightarrow> Error \<Rightarrow> run" where
  "start_windows w b err =
     (let (redirect_calls, inheritHandles, startupInfo, outputFile) = redirect_windows w b;
          environment = environment_windows b;
          working_directory = m_current_working_directory b;
          create = CreateProcessA Nullptr (toString_quote_if_needed (m_commandLine b))
                     inheritHandles 0 environment working_directory startupInfo;
          (handle, err', create_calls) =
            (case CreateProcessA_ret w of
               None \<Rightarrow> (INVALID_HANDLE_VALUE, Fail generic err, [create])
             | Some processInfo \<Rightarrow>
                 (hProcess processInfo, err, [create, CloseHandle (hThread processInfo)]));
          close_calls =
            (if m_standardOutputFilePath b \<noteq> [] then
               (case outputFile of Some h \<Rightarrow> [CloseHandle h] | None \<Rightarrow> [])
             else [])
      in \<lparr>calls = redirect_calls @ create_calls @ close_calls, error = err',
          outcome = Returns (ChildProcess handle), stdout = Inherited, cwd = None\<rparr>)"

section \<open>Vocabulary of the properties\<close>

text \<open>
  The branch of the child is the last \<^verbatim>\<open>else\<close> of \<^verbatim>\<open>start\<close>: the executable exists
  and \<^verbatim>\<open>fork\<close> returned neither \<open>-1\<close> nor a positive value.
\<close>

definition runs_child_branch :: "posix_os \<Rightarrow> bool" where
  "runs_child_branch os = (exists_ret os \<and> fork_ret os \<noteq> - 1 \<and> \<not> 0 < fork_ret os)"

fun is_exec_call :: "os_call \<Rightarrow> bool" where
  "is_exec_call (Execve _ _ _) = True"
| "is_exec_call (Execv _ _) = True"
| "is_exec_call _ = False"

fun is_redirect_call :: "os_call \<Rightarrow> bool" where
  "is_redirect_call (Open _ _ _) = True"
| "is_redirect_call (Dup2 _ _) = True"
| "is_redirect_call (CreateFileA _ _ _ _ _ _) = True"
| "is_redirect_call _ = False"

fun is_realpath_call :: "os_call \<Rightarrow> bool" where
  "is_realpath_call (Realpath _) = True"
| "is_realpath_call _ = False"

fun is_create_process_call :: "os_call \<Rightarrow> bool" where
  "is_create_process_call (CreateProcessA _ _ _ _ _ _ _) = True"
| "is_create_process_call _ = False"

fun exec_path :: "os_call \<Rightarrow> char_ptr option" where
  "exec_path (Execve p _ _) = Some p"
| "exec_path (Execv p _) = Some p"
| "exec_path _ = None"

fun exec_argv :: "os_call \<Rightarrow> char_ptr list option" where
  "exec_argv (Execve _ argv _) = Some argv"
| "exec_argv (Execv _ argv) = Some argv"
| "exec_argv _ = None"

text \<open>The \<^verbatim>\<open>lpEnvironment\<close> argument of a \<^verbatim>\<open>CreateProcessA\<close> call; \<open>None\<close> is \<^verbatim>\<open>NULL\<close>.\<close>

fun create_process_environment :: "os_call \<Rightarrow> string option" where
  "create_process_environment (CreateProcessA _ _ _ _ environment _ _) = environment"
| "create_process_environment _ = None"

subsection \<open>Sample inputs\<close>

text \<open>
  The helper of the test suite run with two arguments; the answers of a system on which
  every call succeeds, seen from the child; and the same on Windows.
\<close>

definition helper_commandLine :: CommandLine where
  "helper_commandLine =
     \<lparr>getExecutable_raw = ''bin/ExitCodeTestHelper'', getArguments_raw = [''7'', ''x y''],
      toString_quote_if_needed = ''bin/ExitCodeTestHelper 7 \"x y\"''\<rparr>"

definition helper_environment :: Environment where
  "helper_environment =
     \<lparr>toEnvironmentArray = [CStr ''A=1'', Nullptr], toEnvironmentBlock = ''A=1''\<rparr>"

definition linux_child :: posix_os where
  "linux_child =
     \<lparr>exists_ret = True, fork_ret = 0, open_ret = 3, dup2_ret = 1,
      realpath_ret = CStr ''/data/bin/ExitCodeTestHelper'', chdir_ret = 0, exec_returns = False\<rparr>"

definition windows_ok :: windows_os where
  "windows_ok = \<lparr>CreateFileA_ret = 100, CreateProcessA_ret = Some \<lparr>hProcess = 200, hThread = 204\<rparr>\<rparr>"

section \<open>Properties\<close>

subsection \<open>The loop that fills the argument vector\<close>

lemma fill_argv_eq:
  "fill_argv arguments (pre @ replicate (length arguments) Indeterminate @ suf) (length pre) =
     (pre @ map CStr arguments @ suf, length pre + length arguments)"
proof (induction arguments arbitrary: pre)
  case Nil
  show ?case by simp
next
  case (Cons a rest)
  have "fill_argv (a # rest) (pre @ replicate (length (a # rest)) Indeterminate @ suf) (length pre)
        = fill_argv rest ((pre @ [CStr a]) @ replicate (length rest) Indeterminate @ suf)
            (length (pre @ [CStr a]))"
    by (simp add: list_update_append)
  also have "\<dots> = ((pre @ [CStr a]) @ map CStr rest @ suf, length (pre @ [CStr a]) + length rest)"
    by (rule Cons.IH)
  finally show ?case by simp
qed

lemma build_argv_eq:
  "build_argv cl = CStr (getExecutable_raw cl) # map CStr (getArguments_raw cl) @ [Nullptr]"
proof -
  let ?args = "getArguments_raw cl"
  let ?exe = "CStr (getExecutable_raw cl)"
  have alloc: "(replicate (length ?args + 2) Indeterminate)[0 := ?exe]
               = [?exe] @ replicate (length ?args) Indeterminate @ [Indeterminate]"
    by (simp add: replicate_append_same)
  have "fill_argv ?args ([?exe] @ replicate (length ?args) Indeterminate @ [Indeterminate]) (length [?exe])
        = ([?exe] @ map CStr ?args @ [Indeterminate], length [?exe] + length ?args)"
    by (rule fill_argv_eq)
  then have fill: "fill_argv ?args ((replicate (length ?args + 2) Indeterminate)[0 := ?exe]) (Suc 0)
        = (?exe # map CStr ?args @ [Indeterminate], Suc (length ?args))"
    using alloc by simp
  have "(?exe # map CStr ?args @ [Indeterminate])[Suc (length ?args) := Nullptr]
        = ?exe # map CStr ?args @ [Nullptr]"
    by (simp add: list_update_append)
  with fill show ?thesis
    by (simp add: build_argv_def Let_def)
qed

subsection \<open>The parts of an execution\<close>

lemma is_exec_exec_child: "is_exec_call (exec_child b p argv)"
  by (simp add: exec_child_def split: option.split)

lemma start_posix_child:
  "runs_child_branch os \<Longrightarrow>
   start_posix os b e = child_branch os b e [Exists (getExecutable_raw (m_commandLine b)), Fork]"
  by (simp add: runs_child_branch_def start_posix_def Let_def)

lemma child_branch_calls:
  "calls (child_branch os b e before) =
     before @ fst (redirect_child os b) @ [Realpath (getExecutable_raw (m_commandLine b))]
     @ fst (chdir_child os b) @ [exec_child b (realpath_ret os) (build_argv (m_commandLine b))]
     @ (if exec_returns os then [Free (realpath_ret os), Exit (- 1)] else [])"
  by (simp add: child_branch_def Let_def split: prod.split)


lemma exec_path_exec_child: "exec_path (exec_child b p argv) = Some p"
  by (simp add: exec_child_def split: option.split)

lemma redirect_child_calls:
  "fst (redirect_child os b) =
     (if m_standardOutputFilePath b \<noteq> [] then
        [Open (m_standardOutputFilePath b) (O_WRONLY OR O_CREAT OR O_TRUNC) 256,
         Dup2 (open_ret os) STDOUT_FILENO]
      else [])"
  by (simp add: redirect_child_def Let_def)

lemma chdir_child_calls:
  "fst (chdir_child os b) =
     (case m_current_working_directory b of None \<Rightarrow> [] | Some dir \<Rightarrow> [Chdir dir])"
  by (simp add: chdir_child_def split: option.split)

lemma child_branch_error: "error (child_branch os b e before) = e"
  by (simp add: child_branch_def Let_def split: prod.split)

lemma child_branch_outcome:
  "outcome (child_branch os b e before) = (if exec_returns os then Exits (- 1) else ImageReplaced)"
  by (simp add: child_branch_def Let_def split: prod.split)

lemma child_branch_stdout: "stdout (child_branch os b e before) = snd (redirect_child os b)"
  by (simp add: child_branch_def Let_def split: prod.split)

lemma child_branch_cwd: "cwd (child_branch os b e before) = snd (chdir_child os b)"
  by (simp add: child_branch_def Let_def split: prod.split)

lemma start_windows_calls:
  "calls (start_windows w b e) =
     (if m_standardOutputFilePath b \<noteq> [] then [createInheritableFile (m_standardOutputFilePath b)] else [])
     @ [CreateProcessA Nullptr (toString_quote_if_needed (m_commandLine b))
          (m_standardOutputFilePath b \<noteq> []) 0 (environment_windows b)
          (m_current_working_directory b)
          (if m_standardOutputFilePath b \<noteq> [] then
             \<lparr>dwFlags = STARTF_USESTDHANDLES, hStdOutput = CreateFileA_ret w\<rparr>
           else \<lparr>dwFlags = 0, hStdOutput = 0\<rparr>)]
     @ (case CreateProcessA_ret w of None \<Rightarrow> [] | Some processInfo \<Rightarrow> [CloseHandle (hThread processInfo)])
     @ (if m_standardOutputFilePath b \<noteq> [] then [CloseHandle (CreateFileA_ret w)] else [])"
  by (simp add: start_windows_def redirect_windows_def Let_def split: option.split)

lemma start_windows_error:
  "error (start_windows w b e) =
     (case CreateProcessA_ret w of None \<Rightarrow> Fail generic e | Some processInfo \<Rightarrow> e)"
  by (simp add: start_windows_def Let_def split: option.split prod.split)

lemma start_windows_outcome:
  "outcome (start_windows w b e) =
     Returns (ChildProcess (case CreateProcessA_ret w of None \<Rightarrow> INVALID_HANDLE_VALUE
                            | Some processInfo \<Rightarrow> hProcess processInfo))"
  by (simp add: start_windows_def Let_def split: option.split prod.split)

subsection \<open>Failure of the spawn\<close>

text \<open>
  Claim C1. Whatever the builder holds and whatever the \<^verbatim>\<open>Error\<close> held before: when the
  executable does not exist or \<^verbatim>\<open>fork\<close> returns \<open>-1\<close> (Linux), and when
  \<^verbatim>\<open>CreateProcessA\<close> returns \<^verbatim>\<open>FALSE\<close> (Windows), \<^verbatim>\<open>start\<close> leaves the generic process
  error in the \<^verbatim>\<open>Error\<close> and returns the invalid handle: pid \<open>-1\<close> on Linux,
  \<^verbatim>\<open>INVALID_HANDLE_VALUE\<close> on Windows.
\<close>

theorem start_failure_invalid_handle:
  "(\<not> exists_ret os \<or> fork_ret os = - 1 \<longrightarrow>
      error (start_posix os b e) = Some (ProcessError generic) \<and>
      outcome (start_posix os b e) = Returns (ChildProcess (- 1)))
   \<and> (CreateProcessA_ret w = None \<longrightarrow>
      error (start_windows w b e) = Some (ProcessError generic) \<and>
      outcome (start_windows w b e) = Returns (ChildProcess INVALID_HANDLE_VALUE))"
proof (intro conjI impI)
  assume fails: "\<not> exists_ret os \<or> fork_ret os = - 1"
  then show "error (start_posix os b e) = Some (ProcessError generic)"
    by (auto simp: start_posix_def Let_def Fail_def)
  from fails show "outcome (start_posix os b e) = Returns (ChildProcess (- 1))"
    by (auto simp: start_posix_def Let_def)
next
  assume "CreateProcessA_ret w = None"
  then show "error (start_windows w b e) = Some (ProcessError generic)"
    by (simp add: start_windows_error Fail_def)
next
  assume "CreateProcessA_ret w = None"
  then show "outcome (start_windows w b e) = Returns (ChildProcess INVALID_HANDLE_VALUE)"
    by (simp add: start_windows_outcome)
qed


theorem start_failure_invalid_handle_witness:
  "error (start_posix (linux_child\<lparr>exists_ret := False\<rparr>) (ChildProcessBuilder_1 helper_commandLine) None)
     = Some (ProcessError generic)
   \<and> outcome (start_posix (linux_child\<lparr>exists_ret := False\<rparr>) (ChildProcessBuilder_1 helper_commandLine) None)
     = Returns (ChildProcess (- 1))
   \<and> error (start_windows (windows_ok\<lparr>CreateProcessA_ret := None\<rparr>) (ChildProcessBuilder_1 helper_commandLine) None)
     = Some (ProcessError generic)
   \<and> outcome (start_windows (windows_ok\<lparr>CreateProcessA_ret := None\<rparr>) (ChildProcessBuilder_1 helper_commandLine) None)
     = Returns (ChildProcess (- 1))"
  using start_failure_invalid_handle
    [of "linux_child\<lparr>exists_ret := False\<rparr>" "ChildProcessBuilder_1 helper_commandLine" None
        "windows_ok\<lparr>CreateProcessA_ret := None\<rparr>"]
  by (simp add: linux_child_def windows_ok_def INVALID_HANDLE_VALUE_def)


subsection \<open>The calls of the child\<close>

lemma start_posix_child_calls:
  "runs_child_branch os \<Longrightarrow>
   calls (start_posix os b e) =
     [Exists (getExecutable_raw (m_commandLine b)), Fork]
     @ (if m_standardOutputFilePath b \<noteq> [] then
          [Open (m_standardOutputFilePath b) (O_WRONLY OR O_CREAT OR O_TRUNC) 256,
           Dup2 (open_ret os) STDOUT_FILENO]
        else [])
     @ [Realpath (getExecutable_raw (m_commandLine b))]
     @ (case m_current_working_directory b of None \<Rightarrow> [] | Some dir \<Rightarrow> [Chdir dir])
     @ [exec_child b (realpath_ret os) (build_argv (m_commandLine b))]
     @ (if exec_returns os then [Free (realpath_ret os), Exit (- 1)] else [])"
  by (simp only: start_posix_child child_branch_calls redirect_child_calls chdir_child_calls)

lemma start_posix_child_exec_calls:
  "runs_child_branch os \<Longrightarrow>
   filter is_exec_call (calls (start_posix os b e)) =
     [exec_child b (realpath_ret os) (build_argv (m_commandLine b))]"
  by (simp add: start_posix_child_calls is_exec_exec_child split: option.split)

lemma start_posix_parent:
  "exists_ret os \<Longrightarrow> 0 < pid \<Longrightarrow>
   start_posix (os\<lparr>fork_ret := pid\<rparr>) b e =
     \<lparr>calls = [Exists (getExecutable_raw (m_commandLine b)), Fork], error = e,
      outcome = Returns (ChildProcess pid), stdout = Inherited, cwd = None\<rparr>"
  by (simp add: start_posix_def Let_def)

lemma count_list_CStr: "count_list (map CStr xs) Nullptr = 0"
  by (induction xs) simp_all

subsection \<open>The argument vector\<close>

text \<open>
  Claim C2. The array the child passes to \<^verbatim>\<open>exec\<close> holds the executable path at index 0,
  then the arguments of the command line in their order, then a null pointer; it has
  \<open>length arguments + 2\<close> elements, of which exactly one is null, and the only
  \<^verbatim>\<open>exec\<close> call of the child receives it.
\<close>

theorem child_argv_null_terminated:
  "build_argv cl = CStr (getExecutable_raw cl) # map CStr (getArguments_raw cl) @ [Nullptr]
   \<and> length (build_argv cl) = length (getArguments_raw cl) + 2
   \<and> count_list (build_argv cl) Nullptr = 1
   \<and> (runs_child_branch os \<longrightarrow>
        map exec_argv (filter is_exec_call (calls (start_posix os b e)))
          = [Some (build_argv (m_commandLine b))])"
proof (intro conjI impI)
  show "build_argv cl = CStr (getExecutable_raw cl) # map CStr (getArguments_raw cl) @ [Nullptr]"
    by (rule build_argv_eq)
  show "length (build_argv cl) = length (getArguments_raw cl) + 2"
    by (simp add: build_argv_eq)
  show "count_list (build_argv cl) Nullptr = 1"
    by (simp add: build_argv_eq count_list_CStr)
next
  assume "runs_child_branch os"
  then have "filter is_exec_call (calls (start_posix os b e)) =
               [exec_child b (realpath_ret os) (build_argv (m_commandLine b))]"
    by (rule start_posix_child_exec_calls)
  then show "map exec_argv (filter is_exec_call (calls (start_posix os b e)))
               = [Some (build_argv (m_commandLine b))]"
    by (simp add: exec_child_def split: option.split)
qed

theorem child_argv_null_terminated_witness:
  "build_argv helper_commandLine = [CStr ''bin/ExitCodeTestHelper'', CStr ''7'', CStr ''x y'', Nullptr]
   \<and> runs_child_branch linux_child
   \<and> map exec_argv (filter is_exec_call
         (calls (start_posix linux_child (ChildProcessBuilder_1 helper_commandLine) None)))
       = [Some [CStr ''bin/ExitCodeTestHelper'', CStr ''7'', CStr ''x y'', Nullptr]]"
  using child_argv_null_terminated
    [of helper_commandLine linux_child "ChildProcessBuilder_1 helper_commandLine" None]
  by (simp add: helper_commandLine_def linux_child_def runs_child_branch_def ChildProcessBuilder_1_def)

subsection \<open>Redirection of the standard output in the child\<close>

text \<open>
  Claim C3. In the child, the calls after \<^verbatim>\<open>fork\<close> start with
  \<^verbatim>\<open>open(path, O_WRONLY | O_CREAT | O_TRUNC, 0400)\<close> and \<^verbatim>\<open>dup2(fd, STDOUT_FILENO)\<close> on the
  descriptor just returned if the recorded path is not empty, and with neither if it is
  empty; no other call opens or duplicates a descriptor, and the \<^verbatim>\<open>exec\<close> call comes
  after. When both calls succeed the standard output is the file; with an empty path it is
  untouched.
\<close>

theorem child_redirects_stdout_iff_path_nonempty:
  "runs_child_branch os \<Longrightarrow>
   (\<exists>rest. calls (start_posix os b e) =
        [Exists (getExecutable_raw (m_commandLine b)), Fork]
        @ (if m_standardOutputFilePath b \<noteq> [] then
             [Open (m_standardOutputFilePath b) (O_WRONLY OR O_CREAT OR O_TRUNC) 256,
              Dup2 (open_ret os) STDOUT_FILENO]
           else [])
        @ rest
      \<and> \<not> list_ex is_redirect_call rest \<and> list_ex is_exec_call rest)
   \<and> stdout (start_posix os b e) =
       (if m_standardOutputFilePath b \<noteq> [] \<and> 0 \<le> open_ret os \<and> dup2_ret os \<noteq> - 1
        then File (m_standardOutputFilePath b) else Inherited)"
proof
  assume child: "runs_child_branch os"
  let ?rest = "[Realpath (getExecutable_raw (m_commandLine b))]
     @ (case m_current_working_directory b of None \<Rightarrow> [] | Some dir \<Rightarrow> [Chdir dir])
     @ [exec_child b (realpath_ret os) (build_argv (m_commandLine b))]
     @ (if exec_returns os then [Free (realpath_ret os), Exit (- 1)] else [])"
  have "calls (start_posix os b e) =
        [Exists (getExecutable_raw (m_commandLine b)), Fork]
        @ (if m_standardOutputFilePath b \<noteq> [] then
             [Open (m_standardOutputFilePath b) (O_WRONLY OR O_CREAT OR O_TRUNC) 256,
              Dup2 (open_ret os) STDOUT_FILENO]
           else [])
        @ ?rest"
    using child by (simp only: start_posix_child_calls)
  moreover have "\<not> list_ex is_redirect_call ?rest"
    using is_exec_exec_child [of b "realpath_ret os" "build_argv (m_commandLine b)"]
    by (cases "exec_child b (realpath_ret os) (build_argv (m_commandLine b))")
       (simp_all split: option.split)
  moreover have "list_ex is_exec_call ?rest"
    by (simp add: is_exec_exec_child)
  ultimately show "\<exists>rest. calls (start_posix os b e) =
        [Exists (getExecutable_raw (m_commandLine b)), Fork]
        @ (if m_standardOutputFilePath b \<noteq> [] then
             [Open (m_standardOutputFilePath b) (O_WRONLY OR O_CREAT OR O_TRUNC) 256,
              Dup2 (open_ret os) STDOUT_FILENO]
           else [])
        @ rest
      \<and> \<not> list_ex is_redirect_call rest \<and> list_ex is_exec_call rest"
    by blast
next
  assume child: "runs_child_branch os"
  then show "stdout (start_posix os b e) =
       (if m_standardOutputFilePath b \<noteq> [] \<and> 0 \<le> open_ret os \<and> dup2_ret os \<noteq> - 1
        then File (m_standardOutputFilePath b) else Inherited)"
    by (simp add: start_posix_child child_branch_stdout redirect_child_def Let_def dup2_stdout_def)
qed


theorem child_redirects_stdout_iff_path_nonempty_witness:
  "runs_child_branch linux_child
   \<and> calls (start_posix linux_child
        (redirectStandardOutputToFile ''out.txt'' (ChildProcessBuilder_1 helper_commandLine)) None)
       = [Exists ''bin/ExitCodeTestHelper'', Fork, Open ''out.txt'' 577 256, Dup2 3 1,
          Realpath ''bin/ExitCodeTestHelper'',
          Execv (CStr ''/data/bin/ExitCodeTestHelper'')
            [CStr ''bin/ExitCodeTestHelper'', CStr ''7'', CStr ''x y'', Nullptr]]
   \<and> stdout (start_posix linux_child
        (redirectStandardOutputToFile ''out.txt'' (ChildProcessBuilder_1 helper_commandLine)) None)
       = File ''out.txt''"
  using child_redirects_stdout_iff_path_nonempty
    [of linux_child
        "redirectStandardOutputToFile ''out.txt'' (ChildProcessBuilder_1 helper_commandLine)" None]
  by (simp add: start_posix_child_calls build_argv_eq exec_child_def helper_commandLine_def
      linux_child_def runs_child_branch_def ChildProcessBuilder_1_def
      redirectStandardOutputToFile_def O_WRONLY_def O_CREAT_def O_TRUNC_def STDOUT_FILENO_def)

subsection \<open>The environment of the spawned process\<close>

text \<open>
  Claim C4. A builder holds an environment exactly when it was constructed with one (the
  setters do not touch it). On Linux the only \<^verbatim>\<open>exec\<close> call of the child is
  \<^verbatim>\<open>execve\<close> with \<^verbatim>\<open>toEnvironmentArray()\<close> if the builder holds an environment and
  \<^verbatim>\<open>execv\<close>, which keeps the environment of the parent, otherwise. On Windows the
  environment pointer of the only \<^verbatim>\<open>CreateProcessA\<close> call is the block of
  \<^verbatim>\<open>toEnvironmentBlock()\<close> if the builder holds an environment and \<^verbatim>\<open>NULL\<close> otherwise.
\<close>

theorem start_passes_environment_iff_configured:
  "m_environment (ChildProcessBuilder_1 cl) = None
   \<and> m_environment (ChildProcessBuilder_2 cl env) = Some env
   \<and> m_environment (redirectStandardOutputToFile path b) = m_environment b
   \<and> m_environment (setCurrentWorkingDirectory path b) = m_environment b
   \<and> (runs_child_branch os \<longrightarrow>
        filter is_exec_call (calls (start_posix os b e)) =
          [case m_environment b of
             Some environment \<Rightarrow>
               Execve (realpath_ret os) (build_argv (m_commandLine b)) (toEnvironmentArray environment)
           | None \<Rightarrow> Execv (realpath_ret os) (build_argv (m_commandLine b))])
   \<and> map create_process_environment (filter is_create_process_call (calls (start_windows w b e)))
       = [case m_environment b of
            Some environment \<Rightarrow> Some (toEnvironmentBlock environment)
          | None \<Rightarrow> None]"
proof (intro conjI impI)
  show "m_environment (ChildProcessBuilder_1 cl) = None"
    by (simp add: ChildProcessBuilder_1_def)
  show "m_environment (ChildProcessBuilder_2 cl env) = Some env"
    by (simp add: ChildProcessBuilder_2_def)
  show "m_environment (redirectStandardOutputToFile path b) = m_environment b"
    by (simp add: redirectStandardOutputToFile_def)
  show "m_environment (setCurrentWorkingDirectory path b) = m_environment b"
    by (simp add: setCurrentWorkingDirectory_def)
  show "map create_process_environment (filter is_create_process_call (calls (start_windows w b e)))
       = [case m_environment b of
            Some environment \<Rightarrow> Some (toEnvironmentBlock environment)
          | None \<Rightarrow> None]"
    by (simp add: start_windows_calls createInheritableFile_def environment_windows_def
        split: option.split)
next
  assume "runs_child_branch os"
  then show "filter is_exec_call (calls (start_posix os b e)) =
          [case m_environment b of
             Some environment \<Rightarrow>
               Execve (realpath_ret os) (build_argv (m_commandLine b)) (toEnvironmentArray environment)
           | None \<Rightarrow> Execv (realpath_ret os) (build_argv (m_commandLine b))]"
    by (simp add: start_posix_child_exec_calls exec_child_def)
qed

theorem start_passes_environment_iff_configured_witness:
  "runs_child_branch linux_child
   \<and> filter is_exec_call
        (calls (start_posix linux_child (ChildProcessBuilder_2 helper_commandLine helper_environment) None))
       = [Execve (CStr ''/data/bin/ExitCodeTestHelper'')
            [CStr ''bin/ExitCodeTestHelper'', CStr ''7'', CStr ''x y'', Nullptr]
            [CStr ''A=1'', Nullptr]]
   \<and> map create_process_environment (filter is_create_process_call
        (calls (start_windows windows_ok (ChildProcessBuilder_2 helper_commandLine helper_environment) None)))
       = [Some ''A=1'']"
  using start_passes_environment_iff_configured
    [of helper_commandLine helper_environment "[]"
        "ChildProcessBuilder_2 helper_commandLine helper_environment" linux_child None windows_ok]
  by (simp add: build_argv_eq helper_commandLine_def helper_environment_def linux_child_def
      runs_child_branch_def ChildProcessBuilder_2_def)

subsection \<open>A failed exec\<close>

text \<open>
  Claim C5. When the \<^verbatim>\<open>exec\<close> call of the child returns, the child frees the resolved
  path and calls \<^verbatim>\<open>exit(-1)\<close>: these are its last calls, it does not return from
  \<^verbatim>\<open>start\<close>, and its parent reads the exit status 255. The \<^verbatim>\<open>Error\<close> is written neither
  in the child nor in the parent, where \<^verbatim>\<open>start\<close> returns the pid of the child whatever
  happens to the \<^verbatim>\<open>exec\<close> call.
\<close>

theorem child_exits_nonzero_when_exec_returns:
  "runs_child_branch os \<Longrightarrow> exec_returns os \<Longrightarrow>
   (\<exists>pre x. calls (start_posix os b e) = pre @ [x, Free (realpath_ret os), Exit (- 1)]
       \<and> is_exec_call x)
   \<and> outcome (start_posix os b e) = Exits (- 1)
   \<and> exit_status (- 1) = 255
   \<and> error (start_posix os b e) = e
   \<and> (0 < pid \<longrightarrow>
        error (start_posix (os\<lparr>fork_ret := pid\<rparr>) b e) = e \<and>
        outcome (start_posix (os\<lparr>fork_ret := pid\<rparr>) b e) = Returns (ChildProcess pid))"
proof (intro conjI impI)
  assume child: "runs_child_branch os" and returns: "exec_returns os"
  let ?x = "exec_child b (realpath_ret os) (build_argv (m_commandLine b))"
  let ?pre = "[Exists (getExecutable_raw (m_commandLine b)), Fork]
     @ (if m_standardOutputFilePath b \<noteq> [] then
          [Open (m_standardOutputFilePath b) (O_WRONLY OR O_CREAT OR O_TRUNC) 256,
           Dup2 (open_ret os) STDOUT_FILENO]
        else [])
     @ [Realpath (getExecutable_raw (m_commandLine b))]
     @ (case m_current_working_directory b of None \<Rightarrow> [] | Some dir \<Rightarrow> [Chdir dir])"
  have "calls (start_posix os b e) = ?pre @ [?x, Free (realpath_ret os), Exit (- 1)]"
    using child returns by (simp add: start_posix_child_calls)
  then show "\<exists>pre x. calls (start_posix os b e) = pre @ [x, Free (realpath_ret os), Exit (- 1)]
       \<and> is_exec_call x"
    using is_exec_exec_child by blast
  show "outcome (start_posix os b e) = Exits (- 1)"
    using child returns by (simp add: start_posix_child child_branch_outcome)
  show "exit_status (- 1) = 255"
    by (simp add: exit_status_def)
  show "error (start_posix os b e) = e"
    using child by (simp add: start_posix_child child_branch_error)
  have exists: "exists_ret os"
    using child by (simp add: runs_child_branch_def)
  {
    assume "0 < pid"
    with exists show "error (start_posix (os\<lparr>fork_ret := pid\<rparr>) b e) = e"
      by (simp add: start_posix_parent)
  }
  {
    assume "0 < pid"
    with exists show "outcome (start_posix (os\<lparr>fork_ret := pid\<rparr>) b e) = Returns (ChildProcess pid)"
      by (simp add: start_posix_parent)
  }
qed

theorem child_exits_nonzero_when_exec_returns_witness:
  "runs_child_branch (linux_child\<lparr>exec_returns := True\<rparr>)
   \<and> exec_returns (linux_child\<lparr>exec_returns := True\<rparr>)
   \<and> calls (start_posix (linux_child\<lparr>exec_returns := True\<rparr>)
        (ChildProcessBuilder_1 helper_commandLine) None)
       = [Exists ''bin/ExitCodeTestHelper'', Fork, Realpath ''bin/ExitCodeTestHelper'',
          Execv (CStr ''/data/bin/ExitCodeTestHelper'')
            [CStr ''bin/ExitCodeTestHelper'', CStr ''7'', CStr ''x y'', Nullptr],
          Free (CStr ''/data/bin/ExitCodeTestHelper''), Exit (- 1)]
   \<and> outcome (start_posix (linux_child\<lparr>exec_returns := True\<rparr>)
        (ChildProcessBuilder_1 helper_commandLine) None) = Exits (- 1)
   \<and> error (start_posix (linux_child\<lparr>exec_returns := True\<rparr>)
        (ChildProcessBuilder_1 helper_commandLine) None) = None
   \<and> outcome (start_posix (linux_child\<lparr>exec_returns := True, fork_ret := 4242\<rparr>)
        (ChildProcessBuilder_1 helper_commandLine) None) = Returns (ChildProcess 4242)"
  using child_exits_nonzero_when_exec_returns
    [of "linux_child\<lparr>exec_returns := True\<rparr>" "ChildProcessBuilder_1 helper_commandLine" None 4242]
  by (simp add: start_posix_child_calls build_argv_eq exec_child_def helper_commandLine_def
      linux_child_def runs_child_branch_def ChildProcessBuilder_1_def)


subsection \<open>The working directory\<close>

text \<open>
  Claim C6. After \<^verbatim>\<open>setCurrentWorkingDirectory(dir)\<close> the child calls \<^verbatim>\<open>chdir(dir)\<close> after
  \<^verbatim>\<open>fork\<close> and immediately before its \<^verbatim>\<open>exec\<close> call. What \<^verbatim>\<open>chdir\<close> returns changes
  neither the calls made, nor the way the execution ends, nor the \<^verbatim>\<open>Error\<close>, which keeps
  the value it had, in the child and in the parent; after a failed \<^verbatim>\<open>chdir\<close> the
  \<^verbatim>\<open>exec\<close> call is made from the directory the process was in.
\<close>

theorem child_chdir_failure_unreported:
  "runs_child_branch os \<Longrightarrow>
   (\<exists>pre x post. calls (start_posix os (setCurrentWorkingDirectory dir b) e)
        = pre @ [Chdir dir, x] @ post
      \<and> Fork \<in> set pre \<and> \<not> list_ex is_exec_call pre \<and> is_exec_call x)
   \<and> calls (start_posix (os\<lparr>chdir_ret := r\<rparr>) (setCurrentWorkingDirectory dir b) e)
       = calls (start_posix os (setCurrentWorkingDirectory dir b) e)
   \<and> outcome (start_posix (os\<lparr>chdir_ret := r\<rparr>) (setCurrentWorkingDirectory dir b) e)
       = (if exec_returns os then Exits (- 1) else ImageReplaced)
   \<and> error (start_posix (os\<lparr>chdir_ret := r\<rparr>) (setCurrentWorkingDirectory dir b) e) = e
   \<and> cwd (start_posix (os\<lparr>chdir_ret := r\<rparr>) (setCurrentWorkingDirectory dir b) e)
       = (if r = 0 then Some dir else None)
   \<and> (0 < pid \<longrightarrow>
        error (start_posix (os\<lparr>chdir_ret := r, fork_ret := pid\<rparr>)
                 (setCurrentWorkingDirectory dir b) e) = e)"
proof (intro conjI impI)
  assume child: "runs_child_branch os"
  let ?b = "setCurrentWorkingDirectory dir b"
  have child': "runs_child_branch (os\<lparr>chdir_ret := r\<rparr>)"
    using child by (simp add: runs_child_branch_def)
  have dir: "m_current_working_directory ?b = Some dir"
    by (simp add: setCurrentWorkingDirectory_def)
  let ?pre = "[Exists (getExecutable_raw (m_commandLine ?b)), Fork]
     @ (if m_standardOutputFilePath ?b \<noteq> [] then
          [Open (m_standardOutputFilePath ?b) (O_WRONLY OR O_CREAT OR O_TRUNC) 256,
           Dup2 (open_ret os) STDOUT_FILENO]
        else [])
     @ [Realpath (getExecutable_raw (m_commandLine ?b))]"
  let ?x = "exec_child ?b (realpath_ret os) (build_argv (m_commandLine ?b))"
  let ?post = "if exec_returns os then [Free (realpath_ret os), Exit (- 1)] else []"
  have "calls (start_posix os ?b e) = ?pre @ [Chdir dir, ?x] @ ?post"
    using child dir by (simp add: start_posix_child_calls)
  moreover have "Fork \<in> set ?pre" by simp
  moreover have "\<not> list_ex is_exec_call ?pre" by simp
  moreover have "is_exec_call ?x" by (rule is_exec_exec_child)
  ultimately show "\<exists>pre x post. calls (start_posix os ?b e) = pre @ [Chdir dir, x] @ post
      \<and> Fork \<in> set pre \<and> \<not> list_ex is_exec_call pre \<and> is_exec_call x"
    by blast
  show "calls (start_posix (os\<lparr>chdir_ret := r\<rparr>) ?b e) = calls (start_posix os ?b e)"
    using child child' by (simp add: start_posix_child_calls)
  show "outcome (start_posix (os\<lparr>chdir_ret := r\<rparr>) ?b e)
          = (if exec_returns os then Exits (- 1) else ImageReplaced)"
    using child' by (simp add: start_posix_child child_branch_outcome)
  show "error (start_posix (os\<lparr>chdir_ret := r\<rparr>) ?b e) = e"
    using child' by (simp add: start_posix_child child_branch_error)
  show "cwd (start_posix (os\<lparr>chdir_ret := r\<rparr>) ?b e) = (if r = 0 then Some dir else None)"
    using child' dir
    by (simp add: start_posix_child child_branch_cwd chdir_child_def chdir_cwd_def)
  have exists: "exists_ret (os\<lparr>chdir_ret := r\<rparr>)"
    using child by (simp add: runs_child_branch_def)
  {
    assume "0 < pid"
    with exists have "error (start_posix (os\<lparr>chdir_ret := r\<rparr>\<lparr>fork_ret := pid\<rparr>) ?b e) = e"
      by (simp only: start_posix_parent run.simps)
    then show "error (start_posix (os\<lparr>chdir_ret := r, fork_ret := pid\<rparr>) ?b e) = e"
      by simp
  }
qed

theorem child_chdir_failure_unreported_witness:
  "runs_child_branch linux_child
   \<and> calls (start_posix (linux_child\<lparr>chdir_ret := - 1\<rparr>)
        (setCurrentWorkingDirectory ''/no/such/dir'' (ChildProcessBuilder_1 helper_commandLine)) None)
       = [Exists ''bin/ExitCodeTestHelper'', Fork, Realpath ''bin/ExitCodeTestHelper'',
          Chdir ''/no/such/dir'',
          Execv (CStr ''/data/bin/ExitCodeTestHelper'')
            [CStr ''bin/ExitCodeTestHelper'', CStr ''7'', CStr ''x y'', Nullptr]]
   \<and> outcome (start_posix (linux_child\<lparr>chdir_ret := - 1\<rparr>)
        (setCurrentWorkingDirectory ''/no/such/dir'' (ChildProcessBuilder_1 helper_commandLine)) None)
       = ImageReplaced
   \<and> error (start_posix (linux_child\<lparr>chdir_ret := - 1\<rparr>)
        (setCurrentWorkingDirectory ''/no/such/dir'' (ChildProcessBuilder_1 helper_commandLine)) None)
       = None
   \<and> cwd (start_posix (linux_child\<lparr>chdir_ret := - 1\<rparr>)
        (setCurrentWorkingDirectory ''/no/such/dir'' (ChildProcessBuilder_1 helper_commandLine)) None)
       = None"
  using child_chdir_failure_unreported
    [of linux_child "''/no/such/dir''" "ChildProcessBuilder_1 helper_commandLine" None "- 1" 4242]
  by (simp add: start_posix_child_calls build_argv_eq exec_child_def helper_commandLine_def
      linux_child_def runs_child_branch_def ChildProcessBuilder_1_def
      setCurrentWorkingDirectory_def)

subsection \<open>Handles closed on Windows\<close>

text \<open>
  Claim C7. On Windows, when a redirection was requested, the last call of \<^verbatim>\<open>start\<close> closes
  the handle that \<^verbatim>\<open>CreateFileA\<close> returned, after the \<^verbatim>\<open>CreateProcessA\<close> call, whether
  that call succeeded or not. When \<^verbatim>\<open>CreateProcessA\<close> succeeds, the call right after it
  closes the thread handle, and \<^verbatim>\<open>start\<close> then returns the process handle.
\<close>

theorem windows_handles_closed_after_create:
  "(m_standardOutputFilePath b \<noteq> [] \<longrightarrow>
      (\<exists>pre. calls (start_windows w b e) = pre @ [CloseHandle (CreateFileA_ret w)]
         \<and> list_ex is_create_process_call pre))
   \<and> (CreateProcessA_ret w = Some processInfo \<longrightarrow>
      (\<exists>pre create post. calls (start_windows w b e)
           = pre @ [create, CloseHandle (hThread processInfo)] @ post
         \<and> is_create_process_call create)
      \<and> outcome (start_windows w b e) = Returns (ChildProcess (hProcess processInfo)))"
proof (intro conjI impI)
  assume redirect: "m_standardOutputFilePath b \<noteq> []"
  let ?create = "CreateProcessA Nullptr (toString_quote_if_needed (m_commandLine b))
          True 0 (environment_windows b) (m_current_working_directory b)
          \<lparr>dwFlags = STARTF_USESTDHANDLES, hStdOutput = CreateFileA_ret w\<rparr>"
  let ?pre = "[createInheritableFile (m_standardOutputFilePath b), ?create]
     @ (case CreateProcessA_ret w of None \<Rightarrow> []
        | Some processInfo \<Rightarrow> [CloseHandle (hThread processInfo)])"
  have "calls (start_windows w b e) = ?pre @ [CloseHandle (CreateFileA_ret w)]"
    using redirect by (simp add: start_windows_calls)
  moreover have "list_ex is_create_process_call ?pre" by simp
  ultimately show "\<exists>pre. calls (start_windows w b e) = pre @ [CloseHandle (CreateFileA_ret w)]
         \<and> list_ex is_create_process_call pre"
    by blast
next
  assume ok: "CreateProcessA_ret w = Some processInfo"
  let ?pre = "if m_standardOutputFilePath b \<noteq> []
              then [createInheritableFile (m_standardOutputFilePath b)] else []"
  let ?create = "CreateProcessA Nullptr (toString_quote_if_needed (m_commandLine b))
          (m_standardOutputFilePath b \<noteq> []) 0 (environment_windows b)
          (m_current_working_directory b)
          (if m_standardOutputFilePath b \<noteq> [] then
             \<lparr>dwFlags = STARTF_USESTDHANDLES, hStdOutput = CreateFileA_ret w\<rparr>
           else \<lparr>dwFlags = 0, hStdOutput = 0\<rparr>)"
  let ?post = "if m_standardOutputFilePath b \<noteq> [] then [CloseHandle (CreateFileA_ret w)] else []"
  have "calls (start_windows w b e) = ?pre @ [?create, CloseHandle (hThread processInfo)] @ ?post"
    using ok by (simp add: start_windows_calls)
  moreover have "is_create_process_call ?create" by simp
  ultimately show "\<exists>pre create post. calls (start_windows w b e)
           = pre @ [create, CloseHandle (hThread processInfo)] @ post
         \<and> is_create_process_call create"
    by blast
next
  assume "CreateProcessA_ret w = Some processInfo"
  then show "outcome (start_windows w b e) = Returns (ChildProcess (hProcess processInfo))"
    by (simp add: start_windows_outcome)
qed

theorem windows_handles_closed_after_create_witness:
  "calls (start_windows windows_ok
       (redirectStandardOutputToFile ''out.txt'' (ChildProcessBuilder_1 helper_commandLine)) None)
     = [CreateFileA ''out.txt'' 4 3 True 4 128,
        CreateProcessA Nullptr ''bin/ExitCodeTestHelper 7 \"x y\"'' True 0 None None
          \<lparr>dwFlags = 256, hStdOutput = 100\<rparr>,
        CloseHandle 204, CloseHandle 100]
   \<and> outcome (start_windows windows_ok
       (redirectStandardOutputToFile ''out.txt'' (ChildProcessBuilder_1 helper_commandLine)) None)
     = Returns (ChildProcess 200)
   \<and> calls (start_windows (windows_ok\<lparr>CreateProcessA_ret := None\<rparr>)
       (redirectStandardOutputToFile ''out.txt'' (ChildProcessBuilder_1 helper_commandLine)) None)
     = [CreateFileA ''out.txt'' 4 3 True 4 128,
        CreateProcessA Nullptr ''bin/ExitCodeTestHelper 7 \"x y\"'' True 0 None None
          \<lparr>dwFlags = 256, hStdOutput = 100\<rparr>,
        CloseHandle 100]"
  using windows_handles_closed_after_create
    [of "redirectStandardOutputToFile ''out.txt'' (ChildProcessBuilder_1 helper_commandLine)"
        windows_ok None "\<lparr>hProcess = 200, hThread = 204\<rparr>"]
    windows_handles_closed_after_create
    [of "redirectStandardOutputToFile ''out.txt'' (ChildProcessBuilder_1 helper_commandLine)"
        "windows_ok\<lparr>CreateProcessA_ret := None\<rparr>" None "\<lparr>hProcess = 200, hThread = 204\<rparr>"]
  by (simp add: start_windows_calls createInheritableFile_def environment_windows_def
      helper_commandLine_def windows_ok_def ChildProcessBuilder_1_def
      redirectStandardOutputToFile_def FILE_APPEND_DATA_def FILE_SHARE_READ_def
      FILE_SHARE_WRITE_def OPEN_ALWAYS_def FILE_ATTRIBUTE_NORMAL_def STARTF_USESTDHANDLES_def)


subsection \<open>Resolution of the executable path\<close>

text \<open>
  Claim C8. On Linux the child calls \<^verbatim>\<open>realpath\<close> on the raw executable string before its
  \<^verbatim>\<open>exec\<close> call, and the path argument of that call, the only \<^verbatim>\<open>exec\<close> call made, is
  what \<^verbatim>\<open>realpath\<close> returned. On Windows \<^verbatim>\<open>start\<close> never calls \<^verbatim>\<open>realpath\<close>:
  \<^verbatim>\<open>CreateProcessA\<close> gets no application name and the command line as
  \<^verbatim>\<open>toString(Mode::quote_if_needed)\<close> renders it.
\<close>

theorem posix_exec_receives_resolved_path:
  "(runs_child_branch os \<longrightarrow>
      (\<exists>pre mid x post. calls (start_posix os b e)
           = pre @ [Realpath (getExecutable_raw (m_commandLine b))] @ mid @ [x] @ post
         \<and> is_exec_call x \<and> exec_path x = Some (realpath_ret os)
         \<and> \<not> list_ex is_exec_call (pre @ mid @ post)))
   \<and> \<not> list_ex is_realpath_call (calls (start_windows w b e))
   \<and> (\<exists>inherit environment directory startupInfo.
        filter is_create_process_call (calls (start_windows w b e))
          = [CreateProcessA Nullptr (toString_quote_if_needed (m_commandLine b)) inherit 0
               environment directory startupInfo])"
proof (intro conjI impI)
  assume child: "runs_child_branch os"
  let ?pre = "[Exists (getExecutable_raw (m_commandLine b)), Fork]
     @ (if m_standardOutputFilePath b \<noteq> [] then
          [Open (m_standardOutputFilePath b) (O_WRONLY OR O_CREAT OR O_TRUNC) 256,
           Dup2 (open_ret os) STDOUT_FILENO]
        else [])"
  let ?mid = "case m_current_working_directory b of None \<Rightarrow> [] | Some dir \<Rightarrow> [Chdir dir]"
  let ?x = "exec_child b (realpath_ret os) (build_argv (m_commandLine b))"
  let ?post = "if exec_returns os then [Free (realpath_ret os), Exit (- 1)] else []"
  have "calls (start_posix os b e)
          = ?pre @ [Realpath (getExecutable_raw (m_commandLine b))] @ ?mid @ [?x] @ ?post"
    using child by (simp add: start_posix_child_calls)
  moreover have "is_exec_call ?x" by (rule is_exec_exec_child)
  moreover have "exec_path ?x = Some (realpath_ret os)" by (rule exec_path_exec_child)
  moreover have "\<not> list_ex is_exec_call (?pre @ ?mid @ ?post)"
    by (simp split: option.split)
  ultimately show "\<exists>pre mid x post. calls (start_posix os b e)
           = pre @ [Realpath (getExecutable_raw (m_commandLine b))] @ mid @ [x] @ post
         \<and> is_exec_call x \<and> exec_path x = Some (realpath_ret os)
         \<and> \<not> list_ex is_exec_call (pre @ mid @ post)"
    by blast
next
  show "\<not> list_ex is_realpath_call (calls (start_windows w b e))"
    by (simp add: start_windows_calls createInheritableFile_def split: option.split)
  have "filter is_create_process_call (calls (start_windows w b e))
          = [CreateProcessA Nullptr (toString_quote_if_needed (m_commandLine b))
               (m_standardOutputFilePath b \<noteq> []) 0 (environment_windows b)
               (m_current_working_directory b)
               (if m_standardOutputFilePath b \<noteq> [] then
                  \<lparr>dwFlags = STARTF_USESTDHANDLES, hStdOutput = CreateFileA_ret w\<rparr>
                else \<lparr>dwFlags = 0, hStdOutput = 0\<rparr>)]"
    by (simp add: start_windows_calls createInheritableFile_def split: option.split)
  then show "\<exists>inherit environment directory startupInfo.
        filter is_create_process_call (calls (start_windows w b e))
          = [CreateProcessA Nullptr (toString_quote_if_needed (m_commandLine b)) inherit 0
               environment directory startupInfo]"
    by blast
qed

theorem posix_exec_receives_resolved_path_witness:
  "runs_child_branch linux_child
   \<and> map exec_path (filter is_exec_call
        (calls (start_posix linux_child (ChildProcessBuilder_1 helper_commandLine) None)))
       = [Some (CStr ''/data/bin/ExitCodeTestHelper'')]
   \<and> getExecutable_raw helper_commandLine = ''bin/ExitCodeTestHelper''
   \<and> calls (start_windows windows_ok (ChildProcessBuilder_1 helper_commandLine) None)
       = [CreateProcessA Nullptr ''bin/ExitCodeTestHelper 7 \"x y\"'' False 0 None None
            \<lparr>dwFlags = 0, hStdOutput = 0\<rparr>,
          CloseHandle 204]"
  using posix_exec_receives_resolved_path
    [of linux_child "ChildProcessBuilder_1 helper_commandLine" None windows_ok]
  by (simp add: start_posix_child_calls start_windows_calls build_argv_eq exec_child_def
      environment_windows_def helper_commandLine_def linux_child_def windows_ok_def
      runs_child_branch_def ChildProcessBuilder_1_def)

subsection \<open>The empty redirection path\<close>

text \<open>
  Claim C9. \<^verbatim>\<open>redirectStandardOutputToFile("")\<close> leaves a builder on which no redirection
  was requested as it is, so the two cannot be told apart. Whatever the builder, after that
  call \<^verbatim>\<open>start\<close> makes no redirection: on Linux no \<^verbatim>\<open>open\<close> and no \<^verbatim>\<open>dup2\<close>, and the
  standard output is untouched; on Windows no \<^verbatim>\<open>CreateFileA\<close>, \<^verbatim>\<open>CreateProcessA\<close> is
  called with \<^verbatim>\<open>bInheritHandles = FALSE\<close> and a zeroed startup info, and no file handle is
  closed.
\<close>

theorem empty_redirect_path_is_no_redirection:
  "redirectStandardOutputToFile [] (ChildProcessBuilder_1 cl) = ChildProcessBuilder_1 cl
   \<and> redirectStandardOutputToFile [] (ChildProcessBuilder_2 cl env) = ChildProcessBuilder_2 cl env
   \<and> (m_standardOutputFilePath b = [] \<longrightarrow> redirectStandardOutputToFile [] b = b)
   \<and> \<not> list_ex is_redirect_call (calls (start_posix os (redirectStandardOutputToFile [] b) e))
   \<and> stdout (start_posix os (redirectStandardOutputToFile [] b) e) = Inherited
   \<and> calls (start_windows w (redirectStandardOutputToFile [] b) e)
       = CreateProcessA Nullptr (toString_quote_if_needed (m_commandLine b)) False 0
           (environment_windows b) (m_current_working_directory b)
           \<lparr>dwFlags = 0, hStdOutput = 0\<rparr>
         # (case CreateProcessA_ret w of None \<Rightarrow> []
            | Some processInfo \<Rightarrow> [CloseHandle (hThread processInfo)])"
proof (intro conjI impI)
  let ?b = "redirectStandardOutputToFile [] b"
  have empty: "m_standardOutputFilePath ?b = []"
    by (simp add: redirectStandardOutputToFile_def)
  have same: "m_commandLine ?b = m_commandLine b" "m_environment ?b = m_environment b"
    "m_current_working_directory ?b = m_current_working_directory b"
    by (simp_all add: redirectStandardOutputToFile_def)
  show "redirectStandardOutputToFile [] (ChildProcessBuilder_1 cl) = ChildProcessBuilder_1 cl"
    by (simp add: redirectStandardOutputToFile_def ChildProcessBuilder_1_def)
  show "redirectStandardOutputToFile [] (ChildProcessBuilder_2 cl env) = ChildProcessBuilder_2 cl env"
    by (simp add: redirectStandardOutputToFile_def ChildProcessBuilder_2_def)
  show "\<not> list_ex is_redirect_call (calls (start_posix os ?b e))"
  proof (cases "runs_child_branch os")
    case True
    have "\<not> is_redirect_call (exec_child ?b (realpath_ret os) (build_argv (m_commandLine ?b)))"
      by (simp add: exec_child_def split: option.split)
    with True empty show ?thesis
      by (simp add: start_posix_child_calls split: option.split)
  next
    case False
    then show ?thesis
      by (auto simp: runs_child_branch_def start_posix_def Let_def)
  qed
  show "stdout (start_posix os ?b e) = Inherited"
  proof (cases "runs_child_branch os")
    case True
    with empty show ?thesis
      by (simp add: start_posix_child child_branch_stdout redirect_child_def)
  next
    case False
    then show ?thesis
      by (auto simp: runs_child_branch_def start_posix_def Let_def)
  qed
  show "calls (start_windows w ?b e)
       = CreateProcessA Nullptr (toString_quote_if_needed (m_commandLine b)) False 0
           (environment_windows b) (m_current_working_directory b)
           \<lparr>dwFlags = 0, hStdOutput = 0\<rparr>
         # (case CreateProcessA_ret w of None \<Rightarrow> []
            | Some processInfo \<Rightarrow> [CloseHandle (hThread processInfo)])"
    using empty same by (simp add: start_windows_calls environment_windows_def)
next
  assume "m_standardOutputFilePath b = []"
  then show "redirectStandardOutputToFile [] b = b"
    by (simp add: redirectStandardOutputToFile_def)
qed

theorem empty_redirect_path_is_no_redirection_witness:
  "m_standardOutputFilePath
       (setCurrentWorkingDirectory ''/tmp'' (ChildProcessBuilder_1 helper_commandLine)) = []
   \<and> redirectStandardOutputToFile []
        (setCurrentWorkingDirectory ''/tmp'' (ChildProcessBuilder_1 helper_commandLine))
       = setCurrentWorkingDirectory ''/tmp'' (ChildProcessBuilder_1 helper_commandLine)
   \<and> calls (start_posix linux_child
        (redirectStandardOutputToFile []
           (setCurrentWorkingDirectory ''/tmp'' (ChildProcessBuilder_1 helper_commandLine))) None)
       = [Exists ''bin/ExitCodeTestHelper'', Fork, Realpath ''bin/ExitCodeTestHelper'',
          Chdir ''/tmp'',
          Execv (CStr ''/data/bin/ExitCodeTestHelper'')
            [CStr ''bin/ExitCodeTestHelper'', CStr ''7'', CStr ''x y'', Nullptr]]"
  using empty_redirect_path_is_no_redirection
    [of helper_commandLine helper_environment
        "setCurrentWorkingDirectory ''/tmp'' (ChildProcessBuilder_1 helper_commandLine)"
        linux_child None windows_ok]
  by (simp add: start_posix_child_calls build_argv_eq exec_child_def helper_commandLine_def
      linux_child_def runs_child_branch_def ChildProcessBuilder_1_def
      setCurrentWorkingDirectory_def redirectStandardOutputToFile_def)

subsection \<open>A redirection file that cannot be opened\<close>

text \<open>
  Claim C10. In the child, with a redirection path, the value \<^verbatim>\<open>open\<close> returns goes to
  \<^verbatim>\<open>dup2\<close> in the very next call, whatever it is, and the \<^verbatim>\<open>exec\<close> call follows. What
  \<^verbatim>\<open>open\<close> and \<^verbatim>\<open>dup2\<close> return changes neither the later calls nor the way the
  execution ends nor the \<^verbatim>\<open>Error\<close>. When \<^verbatim>\<open>open\<close> returns \<open>-1\<close> the standard output of
  the child stays what it was, and in the parent \<^verbatim>\<open>start\<close> returns the pid of the child
  with the \<^verbatim>\<open>Error\<close> untouched.
\<close>

theorem child_open_failure_unchecked:
  "runs_child_branch os \<Longrightarrow> m_standardOutputFilePath b \<noteq> [] \<Longrightarrow>
   (\<exists>post. calls (start_posix (os\<lparr>open_ret := fd, dup2_ret := r\<rparr>) b e)
        = [Exists (getExecutable_raw (m_commandLine b)), Fork,
           Open (m_standardOutputFilePath b) (O_WRONLY OR O_CREAT OR O_TRUNC) 256,
           Dup2 fd STDOUT_FILENO] @ post
      \<and> list_ex is_exec_call post
      \<and> drop 4 (calls (start_posix os b e)) = post)
   \<and> outcome (start_posix (os\<lparr>open_ret := fd, dup2_ret := r\<rparr>) b e)
       = (if exec_returns os then Exits (- 1) else ImageReplaced)
   \<and> error (start_posix (os\<lparr>open_ret := fd, dup2_ret := r\<rparr>) b e) = e
   \<and> stdout (start_posix (os\<lparr>open_ret := - 1, dup2_ret := r\<rparr>) b e) = Inherited
   \<and> (0 < pid \<longrightarrow>
        outcome (start_posix (os\<lparr>open_ret := - 1, dup2_ret := r, fork_ret := pid\<rparr>) b e)
          = Returns (ChildProcess pid)
        \<and> error (start_posix (os\<lparr>open_ret := - 1, dup2_ret := r, fork_ret := pid\<rparr>) b e) = e)"
proof (intro conjI impI)
  assume child: "runs_child_branch os" and redirect: "m_standardOutputFilePath b \<noteq> []"
  let ?os = "os\<lparr>open_ret := fd, dup2_ret := r\<rparr>"
  have child': "runs_child_branch ?os"
    using child by (simp add: runs_child_branch_def)
  let ?post = "[Realpath (getExecutable_raw (m_commandLine b))]
     @ (case m_current_working_directory b of None \<Rightarrow> [] | Some dir \<Rightarrow> [Chdir dir])
     @ [exec_child b (realpath_ret os) (build_argv (m_commandLine b))]
     @ (if exec_returns os then [Free (realpath_ret os), Exit (- 1)] else [])"
  have "calls (start_posix ?os b e)
        = [Exists (getExecutable_raw (m_commandLine b)), Fork,
           Open (m_standardOutputFilePath b) (O_WRONLY OR O_CREAT OR O_TRUNC) 256,
           Dup2 fd STDOUT_FILENO] @ ?post"
    using child' redirect by (simp add: start_posix_child_calls)
  moreover have "list_ex is_exec_call ?post"
    by (simp add: is_exec_exec_child)
  moreover have "drop 4 (calls (start_posix os b e)) = ?post"
    using child redirect by (simp add: start_posix_child_calls)
  ultimately show "\<exists>post. calls (start_posix ?os b e)
        = [Exists (getExecutable_raw (m_commandLine b)), Fork,
           Open (m_standardOutputFilePath b) (O_WRONLY OR O_CREAT OR O_TRUNC) 256,
           Dup2 fd STDOUT_FILENO] @ post
      \<and> list_ex is_exec_call post
      \<and> drop 4 (calls (start_posix os b e)) = post"
    by blast
  show "outcome (start_posix ?os b e) = (if exec_returns os then Exits (- 1) else ImageReplaced)"
    using child' by (simp add: start_posix_child child_branch_outcome)
  show "error (start_posix ?os b e) = e"
    using child' by (simp add: start_posix_child child_branch_error)
  have "runs_child_branch (os\<lparr>open_ret := - 1, dup2_ret := r\<rparr>)"
    using child by (simp add: runs_child_branch_def)
  then show "stdout (start_posix (os\<lparr>open_ret := - 1, dup2_ret := r\<rparr>) b e) = Inherited"
    by (simp add: start_posix_child child_branch_stdout redirect_child_def Let_def dup2_stdout_def)
  have exists: "exists_ret (os\<lparr>open_ret := - 1, dup2_ret := r\<rparr>)"
    using child by (simp add: runs_child_branch_def)
  {
    assume "0 < pid"
    with exists
    have "outcome (start_posix (os\<lparr>open_ret := - 1, dup2_ret := r\<rparr>\<lparr>fork_ret := pid\<rparr>) b e)
            = Returns (ChildProcess pid)"
      by (simp only: start_posix_parent run.simps)
    then show "outcome (start_posix (os\<lparr>open_ret := - 1, dup2_ret := r, fork_ret := pid\<rparr>) b e)
            = Returns (ChildProcess pid)"
      by simp
  }
  {
    assume "0 < pid"
    with exists
    have "error (start_posix (os\<lparr>open_ret := - 1, dup2_ret := r\<rparr>\<lparr>fork_ret := pid\<rparr>) b e) = e"
      by (simp only: start_posix_parent run.simps)
    then show "error (start_posix (os\<lparr>open_ret := - 1, dup2_ret := r, fork_ret := pid\<rparr>) b e) = e"
      by simp
  }
qed

theorem child_open_failure_unchecked_witness:
  "runs_child_branch linux_child
   \<and> m_standardOutputFilePath
        (redirectStandardOutputToFile ''/no/such/dir/out.txt'' (ChildProcessBuilder_1 helper_commandLine))
       \<noteq> []
   \<and> calls (start_posix (linux_child\<lparr>open_ret := - 1, dup2_ret := - 1\<rparr>)
        (redirectStandardOutputToFile ''/no/such/dir/out.txt'' (ChildProcessBuilder_1 helper_commandLine))
        None)
       = [Exists ''bin/ExitCodeTestHelper'', Fork, Open ''/no/such/dir/out.txt'' 577 256,
          Dup2 (- 1) 1, Realpath ''bin/ExitCodeTestHelper'',
          Execv (CStr ''/data/bin/ExitCodeTestHelper'')
            [CStr ''bin/ExitCodeTestHelper'', CStr ''7'', CStr ''x y'', Nullptr]]
   \<and> outcome (start_posix (linux_child\<lparr>open_ret := - 1, dup2_ret := - 1\<rparr>)
        (redirectStandardOutputToFile ''/no/such/dir/out.txt'' (ChildProcessBuilder_1 helper_commandLine))
        None) = ImageReplaced
   \<and> stdout (start_posix (linux_child\<lparr>open_ret := - 1, dup2_ret := - 1\<rparr>)
        (redirectStandardOutputToFile ''/no/such/dir/out.txt'' (ChildProcessBuilder_1 helper_commandLine))
        None) = Inherited
   \<and> outcome (start_posix (linux_child\<lparr>open_ret := - 1, dup2_ret := - 1, fork_ret := 4242\<rparr>)
        (redirectStandardOutputToFile ''/no/such/dir/out.txt'' (ChildProcessBuilder_1 helper_commandLine))
        None) = Returns (ChildProcess 4242)"
  using child_open_failure_unchecked
    [of linux_child
        "redirectStandardOutputToFile ''/no/such/dir/out.txt'' (ChildProcessBuilder_1 helper_commandLine)"
        "- 1" "- 1" None 4242]
  by (simp add: start_posix_child_calls build_argv_eq exec_child_def helper_commandLine_def
      linux_child_def runs_child_branch_def ChildProcessBuilder_1_def
      redirectStandardOutputToFile_def O_WRONLY_def O_CREAT_def O_TRUNC_def STDOUT_FILENO_def)

end
